theory Spec2Isabelle
  imports
    Main
    "HOL-Library.Word"
    "HOL-Library.Char_ord"
    "HOL-Library.List_Lexorder"
    "HOL-Library.AList"
begin

unbundle bit_operations_syntax

section \<open>Go values\<close>

text \<open>
  A Go \<open>string\<close> is a sequence of bytes; it is modelled as \<^typ>\<open>string\<close> (a list of
  8-bit characters), so that \<open>[]byte(s)\<close> is the list of its character codes. Comparison
  of Go strings (\<open><\<close>, and therefore \<open>sort.Strings\<close>) is lexicographic on the bytes,
  which is the order of \<^typ>\<open>char list\<close> given by the imported list and character orders.

  A Go \<open>map[string]string\<close> is modelled as an association list with distinct keys. The
  order of the list stands for the order in which \<open>range\<close> happens to visit the entries,
  which Go leaves unspecified.
\<close>

type_synonym byte = "8 word"
type_synonym uint32 = "32 word"
type_synonym int64 = "64 word"
type_synonym gomap = "(string \<times> string) list"

definition bytes_of :: "string \<Rightarrow> byte list" where
  "bytes_of s = map (\<lambda>c. of_nat (of_char c)) s"

text \<open>\<open>m[k]\<close>: the stored value, or the zero value \<open>""\<close> for a missing key.\<close>

definition index_map :: "gomap \<Rightarrow> string \<Rightarrow> string" where
  "index_map m k = (case map_of m k of Some v \<Rightarrow> v | None \<Rightarrow> [])"

text \<open>\<open>for k := range m { keys = append(keys, k) }\<close>\<close>

definition range_keys :: "gomap \<Rightarrow> string list" where
  "range_keys m = map fst m"

text \<open>Two association lists that hold the same Go map, visited in different orders.\<close>

definition same_map :: "gomap \<Rightarrow> gomap \<Rightarrow> bool" where
  "same_map m m' \<longleftrightarrow> distinct (map fst m) \<and> distinct (map fst m') \<and> set m = set m'"

section \<open>Library: \<open>crypto/md5\<close> and \<open>encoding/hex\<close>\<close>

text \<open>
  The MD5 message digest (RFC 1321) as \<open>crypto/md5\<close> computes it: the message is padded
  with \<open>0x80\<close>, zero bytes up to 56 modulo 64 and the bit length as 64 bits little endian,
  and each block of 64 bytes goes through 64 rounds.
\<close>

definition md5_K :: "uint32 list" where
  "md5_K = [0xd76aa478, 0xe8c7b756, 0x242070db, 0xc1bdceee, 0xf57c0faf, 0x4787c62a, 0xa8304613, 0xfd469501,
            0x698098d8, 0x8b44f7af, 0xffff5bb1, 0x895cd7be, 0x6b901122, 0xfd987193, 0xa679438e, 0x49b40821,
            0xf61e2562, 0xc040b340, 0x265e5a51, 0xe9b6c7aa, 0xd62f105d, 0x02441453, 0xd8a1e681, 0xe7d3fbc8,
            0x21e1cde6, 0xc33707d6, 0xf4d50d87, 0x455a14ed, 0xa9e3e905, 0xfcefa3f8, 0x676f02d9, 0x8d2a4c8a,
            0xfffa3942, 0x8771f681, 0x6d9d6122, 0xfde5380c, 0xa4beea44, 0x4bdecfa9, 0xf6bb4b60, 0xbebfbc70,
            0x289b7ec6, 0xeaa127fa, 0xd4ef3085, 0x04881d05, 0xd9d4d039, 0xe6db99e5, 0x1fa27cf8, 0xc4ac5665,
            0xf4292244, 0x432aff97, 0xab9423a7, 0xfc93a039, 0x655b59c3, 0x8f0ccc92, 0xffeff47d, 0x85845dd1,
            0x6fa87e4f, 0xfe2ce6e0, 0xa3014314, 0x4e0811a1, 0xf7537e82, 0xbd3af235, 0x2ad7d2bb, 0xeb86d391]"

definition md5_S :: "nat list" where
  "md5_S = [7, 12, 17, 22, 7, 12, 17, 22, 7, 12, 17, 22, 7, 12, 17, 22,
            5, 9, 14, 20, 5, 9, 14, 20, 5, 9, 14, 20, 5, 9, 14, 20,
            4, 11, 16, 23, 4, 11, 16, 23, 4, 11, 16, 23, 4, 11, 16, 23,
            6, 10, 15, 21, 6, 10, 15, 21, 6, 10, 15, 21, 6, 10, 15, 21]"

definition rotl32 :: "uint32 \<Rightarrow> nat \<Rightarrow> uint32" where
  "rotl32 x n = push_bit n x OR drop_bit (32 - n) x"

definition md5_round :: "uint32 list \<Rightarrow> uint32 \<times> uint32 \<times> uint32 \<times> uint32 \<Rightarrow> nat
    \<Rightarrow> uint32 \<times> uint32 \<times> uint32 \<times> uint32" where
  "md5_round M st i =
     (case st of (a, b, c, d) \<Rightarrow>
        let f = (if i < 16 then (b AND c) OR (NOT b AND d)
                 else if i < 32 then (d AND b) OR (NOT d AND c)
                 else if i < 48 then b XOR c XOR d
                 else c XOR (b OR NOT d));
            g = (if i < 16 then i
                 else if i < 32 then (5 * i + 1) mod 16
                 else if i < 48 then (3 * i + 5) mod 16
                 else (7 * i) mod 16);
            f' = f + a + md5_K ! i + M ! g
        in (d, b + rotl32 f' (md5_S ! i), b, c))"

fun le_word32 :: "byte list \<Rightarrow> uint32" where
  "le_word32 [] = 0"
| "le_word32 (x # xs) = ucast x OR push_bit 8 (le_word32 xs)"

fun chunks :: "nat \<Rightarrow> 'a list \<Rightarrow> 'a list list" where
  "chunks n [] = []"
| "chunks n xs = (if n = 0 then [xs] else take n xs # chunks n (drop n xs))"

definition md5_block :: "uint32 \<times> uint32 \<times> uint32 \<times> uint32 \<Rightarrow> byte list
    \<Rightarrow> uint32 \<times> uint32 \<times> uint32 \<times> uint32" where
  "md5_block h blk =
     (case h of (a0, b0, c0, d0) \<Rightarrow>
        case foldl (md5_round (map le_word32 (chunks 4 blk))) h [0..<64] of
          (a, b, c, d) \<Rightarrow> (a0 + a, b0 + b, c0 + c, d0 + d))"

definition le_bytes32 :: "uint32 \<Rightarrow> byte list" where
  "le_bytes32 w = map (\<lambda>i. ucast (drop_bit (8 * i) w)) [0..<4]"

definition le_bytes64 :: "64 word \<Rightarrow> byte list" where
  "le_bytes64 w = map (\<lambda>i. ucast (drop_bit (8 * i) w)) [0..<8]"

definition md5_pad :: "byte list \<Rightarrow> byte list" where
  "md5_pad m = m @ [0x80] @ replicate ((119 - length m mod 64) mod 64) 0
                 @ le_bytes64 (push_bit 3 (of_nat (length m)))"

definition md5_Sum :: "byte list \<Rightarrow> byte list" where
  "md5_Sum m =
     (case foldl md5_block (0x67452301, 0xefcdab89, 0x98badcfe, 0x10325476) (chunks 64 (md5_pad m)) of
        (a, b, c, d) \<Rightarrow> concat (map le_bytes32 [a, b, c, d]))"

text \<open>
  \<open>hex.EncodeToString\<close>: two characters of \<open>hextable\<close> for each byte, the high nibble
  first.
\<close>

definition hextable :: string where
  "hextable = ''0123456789abcdef''"

definition hex_EncodeToString :: "byte list \<Rightarrow> string" where
  "hex_EncodeToString src =
     concat (map (\<lambda>v. [hextable ! unat (drop_bit 4 v), hextable ! unat (v AND 0x0f)]) src)"

section \<open>Canonical signer: \<open>utils/signature.go\<close>\<close>

text \<open>
  The loop \<open>for _, k := range keys\<close> of \<open>GenerateSignature\<close>, writing \<open>k\<close>, \<open>=\<close>,
  \<open>params[k]\<close> and \<open>&\<close> to the string builder \<open>signStr\<close>.
\<close>

primrec write_params :: "gomap \<Rightarrow> string list \<Rightarrow> string \<Rightarrow> string" where
  "write_params params [] signStr = signStr"
| "write_params params (k # keys) signStr =
     write_params params keys (signStr @ k @ ''='' @ index_map params k @ ''&'')"

definition GenerateSignature :: "gomap \<Rightarrow> string \<Rightarrow> string" where
  "GenerateSignature params appSecret =
     (let keys = sort (range_keys params);
          signStr = write_params params keys [];
          signStr = signStr @ ''app_secret='';
          signStr = signStr @ appSecret
      in hex_EncodeToString (md5_Sum (bytes_of signStr)))"

section \<open>Signature middleware: \<open>middleware/signature.go\<close>\<close>

text \<open>
  \<open>Expire\<close> is a \<open>time.Duration\<close> in the source and is only read as
  \<open>int64(config.Expire.Seconds())\<close>; the field \<open>cfg_Expire\<close> holds that number of whole
  seconds.
\<close>

record SignatureConfig =
  cfg_AppKey :: string
  cfg_AppSecret :: string
  cfg_Expire :: int64

record SignatureParams =
  AppKey :: string
  Timestamp :: int64
  Nonce :: string
  Sign :: string

text \<open>
  What a handler reads of the request: the method, the header (keyed by canonical header
  names), and the \<open>url.Values\<close> of the query string and of the posted form, each key
  with its list of values.
\<close>

type_synonym Values = "(string \<times> string list) list"

record Request =
  Method :: string
  Header :: gomap
  Query :: Values
  PostForm :: Values

text \<open>
  The keys that the middlewares store in the \<open>gin.Context\<close>: \<open>"signatureParams"\<close> and
  \<open>"userID"\<close>.
\<close>

record Context =
  ctx_signatureParams :: "SignatureParams option"
  ctx_userID :: "64 word option"

text \<open>
  The messages of the rejections. In the source they are Chinese string literals:
  \<open>SignatureParamsInvalid\<close> (the signature parameters are wrong), \<open>AppKeyInvalid\<close>,
  \<open>SignatureExpired\<close> and \<open>SignatureMismatch\<close> (signature verification failed).
\<close>

datatype message =
  SignatureParamsInvalid | AppKeyInvalid | SignatureExpired | SignatureMismatch

text \<open>
  What a middleware does with the request: \<open>Next c\<close> when it calls \<open>c.Next()\<close>, which
  runs the rest of the chain and with it the business handler; \<open>Abort status code msg\<close>
  when it answers through \<open>ErrorWrapper\<close> (\<open>c.AbortWithStatusJSON\<close>), after which no
  later handler runs; \<open>IndexPanic\<close> for the run-time panic of \<open>values[0]\<close> on an empty
  slice.
\<close>

datatype outcome = Next Context | Abort nat nat message | IndexPanic

text \<open>
  \<open>strconv.ParseInt(s, 10, 64)\<close>: an optional sign, at least one decimal digit, and a
  value that fits 64 bits; anything else is an error.
\<close>

fun digits_value :: "string \<Rightarrow> int \<Rightarrow> int option" where
  "digits_value [] acc = Some acc"
| "digits_value (c # cs) acc =
     (if CHR ''0'' \<le> c \<and> c \<le> CHR ''9''
      then digits_value cs (10 * acc + (int (of_char c) - 48))
      else None)"

definition ParseInt :: "string \<Rightarrow> int64 option" where
  "ParseInt s =
     (let (neg, ds) = (case s of
                         [] \<Rightarrow> (False, [])
                       | c # cs \<Rightarrow> if c = CHR ''-'' then (True, cs)
                                  else if c = CHR ''+'' then (False, cs)
                                  else (False, s))
      in if ds = [] then None
         else case digits_value ds 0 of
                None \<Rightarrow> None
              | Some n \<Rightarrow>
                  let v = (if neg then - n else n)
                  in if - (2 ^ 63) \<le> v \<and> v < 2 ^ 63 then Some (word_of_int v) else None)"

text \<open>
  \<open>c.ShouldBindQuery(&params)\<close> of gin for the struct \<open>SignatureParams\<close>: each field
  takes the first value of its \<open>form\<close> key, a missing key leaves the zero value, and an
  integer field reads the empty string as \<open>0\<close>. \<open>None\<close> stands for a binding error.
\<close>

definition form_value :: "Values \<Rightarrow> string \<Rightarrow> string" where
  "form_value form k = (case map_of form k of Some (v # _) \<Rightarrow> v | _ \<Rightarrow> [])"

definition ShouldBindQuery :: "Request \<Rightarrow> SignatureParams option" where
  "ShouldBindQuery req =
     (let ts = form_value (Query req) ''timestamp''
      in case ParseInt (if ts = [] then ''0'' else ts) of
           None \<Rightarrow> None
         | Some t \<Rightarrow> Some \<lparr>AppKey = form_value (Query req) ''app_key'', Timestamp = t,
                          Nonce = form_value (Query req) ''nonce'',
                          Sign = form_value (Query req) ''sign''\<rparr>)"

text \<open>
  The two loops that merge the query and the form into \<open>allParams\<close>, leaving \<open>sign\<close>
  out. \<open>None\<close> is the panic of \<open>values[0]\<close>.
\<close>

fun merge_params :: "Values \<Rightarrow> gomap \<Rightarrow> gomap option" where
  "merge_params [] allParams = Some allParams"
| "merge_params ((key, values) # rest) allParams =
     (if key \<noteq> ''sign''
      then (case values of
              [] \<Rightarrow> None
            | v # _ \<Rightarrow> merge_params rest (AList.update key v allParams))
      else merge_params rest allParams)"

text \<open>
  Lines 87 to 108 of \<open>Signature\<close>: the keys of \<open>allParams\<close> are sorted, the string is
  built and hashed. The middleware repeats the code of \<open>GenerateSignature\<close> instead of
  calling it.
\<close>

definition calculatedSign :: "gomap \<Rightarrow> string \<Rightarrow> string" where
  "calculatedSign allParams appSecret =
     (let keys = sort (range_keys allParams);
          signStr = write_params allParams keys [];
          signStr = signStr @ ''app_secret='';
          signStr = signStr @ appSecret
      in hex_EncodeToString (md5_Sum (bytes_of signStr)))"

text \<open>
  The statements of \<open>Signature\<close> from line 37 on, with \<open>now\<close> for \<open>time.Now().Unix()\<close>.
  The subtraction \<open>now - params.Timestamp\<close> is on \<open>int64\<close> and wraps around.
\<close>

definition Signature_checks :: "SignatureConfig \<Rightarrow> int64 \<Rightarrow> Request \<Rightarrow> Context \<Rightarrow> outcome" where
  "Signature_checks config now req c =
     (if Method req = ''OPTIONS'' then Next c
      else
        let sign = index_map (Header req) ''Signature'' in
        if sign = [] then
          (case ShouldBindQuery req of
             None \<Rightarrow> Abort 400 400 SignatureParamsInvalid
           | Some params \<Rightarrow>
               if AppKey params \<noteq> cfg_AppKey config then Abort 400 400 AppKeyInvalid
               else if sint (now - Timestamp params) > sint (cfg_Expire config)
               then Abort 400 400 SignatureExpired
               else
                 (case merge_params (Query req) [] of
                    None \<Rightarrow> IndexPanic
                  | Some allParams \<Rightarrow>
                      (case merge_params (PostForm req) allParams of
                         None \<Rightarrow> IndexPanic
                       | Some allParams \<Rightarrow>
                           if calculatedSign allParams (cfg_AppSecret config) \<noteq> Sign params
                           then Abort 400 400 SignatureMismatch
                           else Next (c\<lparr>ctx_signatureParams := Some params\<rparr>))))
        else Next c)"

text \<open>
  \<open>Signature\<close> as it is written: the handler begins with \<open>c.Next(); return\<close>, so the
  statements above are never reached.
\<close>

definition Signature :: "SignatureConfig \<Rightarrow> Request \<Rightarrow> Context \<Rightarrow> outcome" where
  "Signature config req c = Next c"

section \<open>Session tokens: \<open>middleware/jwt.go\<close>\<close>

subsection \<open>Library: \<open>github.com/golang-jwt/jwt/v5\<close>\<close>

text \<open>
  The token library is not part of the repository. Its behaviour is modelled at the level
  of what a token carries. An instant (\<open>time.Time\<close>) is a number of nanoseconds since the
  Unix epoch; a \<open>time.Duration\<close> is an \<open>int64\<close> of nanoseconds.

  \<open>jwt.NewNumericDate(t)\<close> is \<open>t.Truncate(TimePrecision)\<close>, and \<open>TimePrecision\<close> is one
  second unless the program changes it (this one does not): the instant is rounded down
  to a whole second.
\<close>

definition Time_Add :: "int \<Rightarrow> int64 \<Rightarrow> int" where
  "Time_Add t d = t + sint d"

definition NewNumericDate :: "int \<Rightarrow> int" where
  "NewNumericDate t = t - t mod 1000000000"

text \<open>\<open>Claims\<close>: the field \<open>UserID\<close> and the embedded \<open>jwt.RegisteredClaims\<close>.\<close>

record Claims =
  UserID :: "64 word"
  Issuer :: string
  Subject :: string
  Audience :: "string list"
  ExpiresAt :: "int option"
  NotBefore :: "int option"
  IssuedAt :: "int option"
  ID :: string

text \<open>
  The signing method named in the header of a token: one of the three HMAC methods, a
  registered method of another family (\<open>none\<close>, RSA, ECDSA, EdDSA), or a name that is not
  registered.
\<close>

datatype SigningMethod = HS256 | HS384 | HS512 | NotHMAC | Unregistered

text \<open>
  The integrity tag is symbolic: \<open>HMAC m key signed\<close> is the HMAC of method \<open>m\<close> under
  \<open>key\<close> over the encoded header and claims \<open>signed\<close>, and \<open>Bytes b\<close> is any other
  byte string. Only the fact that equal inputs give equal tags is used below.
\<close>

datatype tag = HMAC SigningMethod string "SigningMethod \<times> Claims" | Bytes string

text \<open>
  A token string is represented by what the parser reads from it: the three parts of a
  compact serialisation (header, claims, signature), or \<open>Unparsable\<close> for a string that
  is not one.
\<close>

datatype token = Token SigningMethod Claims tag | Unparsable

datatype jwt_error =
    TokenMalformed | TokenUnverifiable | TokenSignatureInvalid
  | TokenExpired | TokenNotValidYet | TokenInvalid | InvalidKeyType

text \<open>\<open>jwt.NewWithClaims(method, claims)\<close> followed by \<open>token.SignedString(key)\<close>.\<close>

definition SignedString :: "SigningMethod \<Rightarrow> Claims \<Rightarrow> string \<Rightarrow> jwt_error + token" where
  "SignedString method claims key =
     (if method \<in> {HS256, HS384, HS512}
      then Inr (Token method claims (HMAC method key (method, claims)))
      else Inl InvalidKeyType)"

text \<open>
  The validator of the library: with no option set it checks \<open>exp\<close> with
  \<open>now.Before(exp)\<close> and \<open>nbf\<close> with \<open>!now.Before(nbf)\<close>; \<open>iat\<close> is not checked.
\<close>

definition Validate :: "Claims \<Rightarrow> int \<Rightarrow> jwt_error option" where
  "Validate claims now =
     (case ExpiresAt claims of
        Some exp \<Rightarrow> if now < exp then
                      (case NotBefore claims of
                         Some nbf \<Rightarrow> if now < nbf then Some TokenNotValidYet else None
                       | None \<Rightarrow> None)
                    else Some TokenExpired
      | None \<Rightarrow>
          (case NotBefore claims of
             Some nbf \<Rightarrow> if now < nbf then Some TokenNotValidYet else None
           | None \<Rightarrow> None))"

text \<open>
  \<open>jwt.ParseWithClaims\<close> with a key function that returns \<open>[]byte(secret)\<close> whatever
  the header says: the parts are decoded, the signing method is looked up, the tag is
  recomputed and compared, and the claims are validated at \<open>now\<close>, the one reading of the
  clock. The result is the claims and the flag \<open>Valid\<close>.
\<close>

definition ParseWithClaims :: "token \<Rightarrow> string \<Rightarrow> int \<Rightarrow> jwt_error + (Claims \<times> bool)" where
  "ParseWithClaims tokenString key now =
     (case tokenString of
        Unparsable \<Rightarrow> Inl TokenMalformed
      | Token method claims sig \<Rightarrow>
          if method = Unregistered then Inl TokenUnverifiable
          else if method = NotHMAC then Inl TokenSignatureInvalid
          else if sig \<noteq> HMAC method key (method, claims) then Inl TokenSignatureInvalid
          else (case Validate claims now of
                  Some err \<Rightarrow> Inl err
                | None \<Rightarrow> Inr (claims, True)))"

subsection \<open>\<open>GenerateToken\<close>, \<open>ParseToken\<close> and \<open>JWTAuth\<close>\<close>

text \<open>
  \<open>GenerateToken\<close> reads the clock twice: \<open>now0\<close> for \<open>ExpiresAt\<close> and \<open>now1\<close> for
  \<open>IssuedAt\<close>.
\<close>

definition GenerateToken :: "64 word \<Rightarrow> string \<Rightarrow> int64 \<Rightarrow> int \<Rightarrow> int \<Rightarrow> jwt_error + token" where
  "GenerateToken userID secret expire now0 now1 =
     (let claims = \<lparr>UserID = userID, Issuer = [], Subject = ''user_token'', Audience = [],
                     ExpiresAt = Some (NewNumericDate (Time_Add now0 expire)),
                     NotBefore = None,
                     IssuedAt = Some (NewNumericDate now1),
                     ID = []\<rparr>
      in SignedString HS256 claims secret)"

definition ParseToken :: "token \<Rightarrow> string \<Rightarrow> int \<Rightarrow> jwt_error + Claims" where
  "ParseToken tokenString secret now =
     (case ParseWithClaims tokenString secret now of
        Inl err \<Rightarrow> Inl err
      | Inr (claims, valid) \<Rightarrow> if \<not> valid then Inl TokenInvalid else Inr claims)"

text \<open>
  \<open>strings.SplitN(s, " ", 2)\<close>, and the test of the \<open>Authorization\<close> header that the
  statements of \<open>JWTAuth\<close> make: the header is rejected when it is empty or when it is
  not two parts of which the first is \<open>Bearer\<close>.
\<close>

definition SplitN2 :: "string \<Rightarrow> string list" where
  "SplitN2 s =
     (if CHR '' '' \<in> set s
      then [takeWhile (\<lambda>c. c \<noteq> CHR '' '') s, tl (dropWhile (\<lambda>c. c \<noteq> CHR '' '') s)]
      else [s])"

definition malformed_Authorization :: "string \<Rightarrow> bool" where
  "malformed_Authorization authHeader =
     (authHeader = [] \<or>
      (case SplitN2 authHeader of
         [p0, p1] \<Rightarrow> p0 \<noteq> ''Bearer''
       | _ \<Rightarrow> True))"

text \<open>
  \<open>JWTAuth\<close> as it is written: the handler begins with
  \<open>c.Set("userID", uint(1)); c.Next(); return\<close>; the header is never read.
\<close>

definition JWTAuth :: "string \<Rightarrow> Request \<Rightarrow> Context \<Rightarrow> outcome" where
  "JWTAuth secret req c = Next (c\<lparr>ctx_userID := Some 1\<rparr>)"

section \<open>Structured logger: \<open>utils/logger.go\<close>\<close>

text \<open>\<open>zapcore.Level\<close> is an \<open>int8\<close>.\<close>

type_synonym Level = "8 word"

definition DebugLevel :: Level where "DebugLevel = - 1"
definition InfoLevel :: Level where "InfoLevel = 0"
definition WarnLevel :: Level where "WarnLevel = 1"
definition ErrorLevel :: Level where "ErrorLevel = 2"
definition DPanicLevel :: Level where "DPanicLevel = 3"
definition PanicLevel :: Level where "PanicLevel = 4"
definition FatalLevel :: Level where "FatalLevel = 5"

record LogConfig =
  LogDir :: string
  LogFileName :: string
  MaxSize :: int
  MaxBackups :: int
  MaxAge :: int
  Compress :: bool
  ConsoleOutput :: bool
  RotateDaily :: bool

definition defaultLogConfig :: LogConfig where
  "defaultLogConfig =
     \<lparr>LogDir = ''logs'', LogFileName = ''app.log'', MaxSize = 100, MaxBackups = 10,
      MaxAge = 30, Compress = True, ConsoleOutput = True, RotateDaily = True\<rparr>"

text \<open>The two level predicates of \<open>InitLoggerWithConfig\<close>.\<close>

definition highPriority :: "Level \<Rightarrow> bool" where
  "highPriority lvl \<longleftrightarrow> sint lvl \<ge> sint ErrorLevel"

definition lowPriority :: "Level \<Rightarrow> bool" where
  "lowPriority lvl \<longleftrightarrow> sint lvl < sint ErrorLevel"

text \<open>
  \<open>filepath.Join\<close> for path elements that are already clean: empty elements are
  dropped and the others are joined by the separator (the cleaning of the result is not
  modelled).
\<close>

definition filepath_Join :: "string list \<Rightarrow> string" where
  "filepath_Join elems =
     (case filter (\<lambda>e. e \<noteq> []) elems of
        [] \<Rightarrow> []
      | e # es \<Rightarrow> foldl (\<lambda>p x. p @ ''/'' @ x) e es)"

record lumberjack_Logger =
  Filename :: string
  lj_MaxSize :: int
  lj_MaxBackups :: int
  lj_MaxAge :: int
  lj_Compress :: bool

text \<open>
  Where a core writes: a rotating file (\<open>zapcore.AddSync\<close> of a \<open>lumberjack.Logger\<close>),
  or one of the two console streams.
\<close>

datatype WriteSyncer = File lumberjack_Logger | Stdout | Stderr

type_synonym Core = "WriteSyncer \<times> (Level \<Rightarrow> bool)"

definition logFilename :: "LogConfig \<Rightarrow> string \<Rightarrow> string" where
  "logFilename config today =
     (if RotateDaily config then filepath_Join [LogDir config, today @ ''.log'']
      else filepath_Join [LogDir config, ''info_'' @ LogFileName config])"

definition errorLogFilename :: "LogConfig \<Rightarrow> string \<Rightarrow> string" where
  "errorLogFilename config today =
     (if RotateDaily config then filepath_Join [LogDir config, today @ ''_error.log'']
      else filepath_Join [LogDir config, ''error_'' @ LogFileName config])"

definition infoLogFile :: "LogConfig \<Rightarrow> string \<Rightarrow> lumberjack_Logger" where
  "infoLogFile config today =
     \<lparr>Filename = logFilename config today, lj_MaxSize = MaxSize config,
      lj_MaxBackups = MaxBackups config, lj_MaxAge = MaxAge config,
      lj_Compress = Compress config\<rparr>"

definition errorLogFile :: "LogConfig \<Rightarrow> string \<Rightarrow> lumberjack_Logger" where
  "errorLogFile config today =
     \<lparr>Filename = errorLogFilename config today, lj_MaxSize = MaxSize config,
      lj_MaxBackups = MaxBackups config, lj_MaxAge = MaxAge config,
      lj_Compress = Compress config\<rparr>"

text \<open>
  The list \<open>cores\<close> that \<open>InitLoggerWithConfig\<close> builds, \<open>today\<close> being
  \<open>time.Now().Format("2006-01-02")\<close>.
\<close>

definition build_cores :: "LogConfig \<Rightarrow> string \<Rightarrow> Core list" where
  "build_cores config today =
     [(File (errorLogFile config today), highPriority),
      (File (infoLogFile config today), lowPriority)]
     @ (if ConsoleOutput config then [(Stderr, highPriority), (Stdout, lowPriority)] else [])"

text \<open>
  \<open>zapcore.NewTee(cores...)\<close>: a record of level \<open>lvl\<close> is written by every core whose
  level predicate accepts \<open>lvl\<close>.
\<close>

definition tee_write :: "Core list \<Rightarrow> Level \<Rightarrow> WriteSyncer list" where
  "tee_write cores lvl = map fst (filter (\<lambda>core. snd core lvl) cores)"


section \<open>Process state of the two loggers\<close>

text \<open>
  The messages of the log records that the functions below emit (Chinese string literals
  in the source): the logger was initialised, the request log directory cannot be
  created, the request logger was initialised, a request log entry cannot be serialised,
  a request log entry cannot be written.
\<close>

datatype log_message =
    LoggerInitialised | RequestLogDirFailed | RequestLoggerInitialised
  | RequestLogMarshalFailed | RequestLogWriteFailed

text \<open>
  The collaborators: whether \<open>os.MkdirAll\<close> fails on a path, the current date,
  \<open>json.Marshal\<close> on a request log entry (\<open>None\<close> for an error), and whether the
  \<open>Write\<close> of a rotating file fails.
\<close>

record 'r Env =
  mkdir_fails :: "string \<Rightarrow> bool"
  today :: string
  json_Marshal :: "'r \<Rightarrow> string option"
  write_fails :: "lumberjack_Logger \<Rightarrow> bool"

record RequestLogger =
  rl_config :: LogConfig
  writer :: "lumberjack_Logger option"

text \<open>
  The package variables \<open>logger\<close>, \<open>once\<close>, \<open>requestLogger\<close> and \<open>reqLogOnce\<close>; the
  records written through the cores (sink, level, message); the data written to the
  request log files; and whether the goroutine that renews the writer at midnight has
  been started.
\<close>

record State =
  logger :: "Core list option"
  once :: bool
  requestLogger :: "RequestLogger option"
  reqLogOnce :: bool
  records :: "(WriteSyncer \<times> Level \<times> log_message) list"
  audit_writes :: "(lumberjack_Logger \<times> string) list"
  rotation_started :: bool

datatype panic = LogDirPanic | NilPointerDereference

text \<open>
  How a call ends: it returns, it panics, or it blocks forever on a mutex that the
  caller itself holds.
\<close>

datatype effect = Returned State | Panicked panic State | Deadlocked State

text \<open>A method of \<open>*zap.Logger\<close> on the package variable \<open>logger\<close>.\<close>

definition zap_log :: "Level \<Rightarrow> log_message \<Rightarrow> State \<Rightarrow> effect" where
  "zap_log lvl msg s =
     (case logger s of
        None \<Rightarrow> Panicked NilPointerDereference s
      | Some cores \<Rightarrow>
          Returned (s\<lparr>records := records s @ map (\<lambda>ws. (ws, lvl, msg)) (tee_write cores lvl)\<rparr>))"

text \<open>
  \<open>sync.Once\<close> marks the call as done even when the function panics.
\<close>

definition InitLoggerWithConfig :: "'r Env \<Rightarrow> LogConfig \<Rightarrow> State \<Rightarrow> effect" where
  "InitLoggerWithConfig env config s =
     (if once s then Returned s
      else
        let s = s\<lparr>once := True\<rparr> in
        if mkdir_fails env (LogDir config) then Panicked LogDirPanic s
        else
          let s = s\<lparr>logger := Some (build_cores config (today env))\<rparr>
          in zap_log InfoLevel LoggerInitialised s)"

definition InitLogger :: "'r Env \<Rightarrow> State \<Rightarrow> effect" where
  "InitLogger env s = InitLoggerWithConfig env defaultLogConfig s"

definition GetLogger :: "'r Env \<Rightarrow> State \<Rightarrow> effect" where
  "GetLogger env s = (if logger s = None then InitLogger env s else Returned s)"

definition Info :: "'r Env \<Rightarrow> log_message \<Rightarrow> State \<Rightarrow> effect" where
  "Info env msg s =
     (case GetLogger env s of
        Returned s' \<Rightarrow> zap_log InfoLevel msg s'
      | e \<Rightarrow> e)"

definition Error :: "'r Env \<Rightarrow> log_message \<Rightarrow> State \<Rightarrow> effect" where
  "Error env msg s =
     (case GetLogger env s of
        Returned s' \<Rightarrow> zap_log ErrorLevel msg s'
      | e \<Rightarrow> e)"

section \<open>Audit recorder: \<open>utils/request_logger.go\<close>\<close>

definition updateWriter :: "'r Env \<Rightarrow> RequestLogger \<Rightarrow> RequestLogger" where
  "updateWriter env rl =
     (let logFilename =
            (if RotateDaily (rl_config rl)
             then filepath_Join [LogDir (rl_config rl), ''requests'',
                                 ''requests-'' @ today env @ ''.log'']
             else filepath_Join [LogDir (rl_config rl), ''requests'', ''requests.log''])
      in rl\<lparr>writer := Some \<lparr>Filename = logFilename, lj_MaxSize = MaxSize (rl_config rl),
                              lj_MaxBackups = MaxBackups (rl_config rl),
                              lj_MaxAge = MaxAge (rl_config rl),
                              lj_Compress = Compress (rl_config rl)\<rparr>\<rparr>)"

definition requestLogDir :: "LogConfig \<Rightarrow> string" where
  "requestLogDir config =
     (if LogDir config = [] then ''logs/requests''
      else filepath_Join [LogDir config, ''requests''])"

text \<open>
  \<open>InitRequestLogger\<close>. With \<open>RotateDaily\<close> the writer is set by a goroutine that is only
  started here. In the program the goroutine races with the caller; here it has not run
  yet when the function returns, and \<open>rotation_tick\<close> below is its loop body, to be run
  between two calls.
\<close>

definition InitRequestLogger :: "'r Env \<Rightarrow> LogConfig \<Rightarrow> State \<Rightarrow> effect" where
  "InitRequestLogger env config s =
     (if reqLogOnce s then Returned s
      else
        let s = s\<lparr>reqLogOnce := True\<rparr>;
            logDir = requestLogDir config
        in
        if mkdir_fails env logDir then Error env RequestLogDirFailed s
        else
          let rl = \<lparr>rl_config = config, writer = None\<rparr>;
              s = (if RotateDaily config
                   then s\<lparr>requestLogger := Some rl, rotation_started := True\<rparr>
                   else s\<lparr>requestLogger := Some (updateWriter env rl)\<rparr>)
          in Info env RequestLoggerInitialised s)"

definition rotation_tick :: "'r Env \<Rightarrow> State \<Rightarrow> State" where
  "rotation_tick env s =
     (case requestLogger s of
        Some rl \<Rightarrow> s\<lparr>requestLogger := Some (updateWriter env rl)\<rparr>
      | None \<Rightarrow> s)"

text \<open>
  \<open>LogRequest\<close>. The entry is serialised before the mutex of \<open>requestLogger\<close> is
  locked. Locking dereferences \<open>requestLogger\<close>. With the mutex held and no writer yet,
  the function calls \<open>updateWriter\<close>, which locks the same mutex again and so never
  proceeds.
\<close>

definition LogRequest :: "'r Env \<Rightarrow> 'r \<Rightarrow> State \<Rightarrow> effect" where
  "LogRequest env reqLog s =
     (case (if requestLogger s = None then InitRequestLogger env defaultLogConfig s
            else Returned s) of
        Returned s \<Rightarrow>
          (case json_Marshal env reqLog of
             None \<Rightarrow> Error env RequestLogMarshalFailed s
           | Some jsonData \<Rightarrow>
               let jsonData = jsonData @ [CHR 0x0A] in
               (case requestLogger s of
                  None \<Rightarrow> Panicked NilPointerDereference s
                | Some rl \<Rightarrow>
                    (case writer rl of
                       None \<Rightarrow> Deadlocked s
                     | Some w \<Rightarrow>
                         if write_fails env w then Error env RequestLogWriteFailed s
                         else Returned (s\<lparr>audit_writes := audit_writes s @ [(w, jsonData)]\<rparr>))))
      | e \<Rightarrow> e)"

section \<open>The canonical signature as the specification words it\<close>

text \<open>
  The specification reads: sort the keys of \<open>P\<close> ascending by byte value, concatenate
  \<open>k=v&\<close> for each key in that order, append the literal \<open>app_secret=\<close> and the secret,
  take the MD5 digest of the bytes and encode it in lowercase hexadecimal. Here \<open>P\<close> is a
  finite map, with no order of its own.
\<close>

definition spec_signed_string :: "(string \<rightharpoonup> string) \<Rightarrow> string \<Rightarrow> string" where
  "spec_signed_string P S =
     concat (map (\<lambda>k. k @ ''='' @ the (P k) @ ''&'') (sorted_list_of_set (dom P)))
       @ ''app_secret='' @ S"

definition lower_hex_digit :: "nat \<Rightarrow> char" where
  "lower_hex_digit n = (if n < 10 then char_of (48 + n) else char_of (87 + n))"

definition lower_hex :: "byte list \<Rightarrow> string" where
  "lower_hex bs = concat (map (\<lambda>b. [lower_hex_digit (unat b div 16), lower_hex_digit (unat b mod 16)]) bs)"

definition spec_signature :: "(string \<rightharpoonup> string) \<Rightarrow> string \<Rightarrow> string" where
  "spec_signature P S = lower_hex (md5_Sum (bytes_of (spec_signed_string P S)))"

section \<open>Predicates on outcomes and the scenarios of the specification\<close>

definition returned :: "effect \<Rightarrow> bool" where
  "returned e = (case e of Returned _ \<Rightarrow> True | _ \<Rightarrow> False)"

definition panicked :: "effect \<Rightarrow> bool" where
  "panicked e = (case e of Panicked _ _ \<Rightarrow> True | _ \<Rightarrow> False)"

definition final_state :: "effect \<Rightarrow> State" where
  "final_state e = (case e of Returned s \<Rightarrow> s | Panicked _ s \<Rightarrow> s | Deadlocked s \<Rightarrow> s)"

text \<open>
  The Structured Logger can log: it has been initialised, or its first use can still
  initialise it with the default configuration.
\<close>

definition logger_available :: "'r Env \<Rightarrow> State \<Rightarrow> bool" where
  "logger_available env s \<longleftrightarrow>
     logger s \<noteq> None \<or> (\<not> once s \<and> \<not> mkdir_fails env (LogDir defaultLogConfig))"

text \<open>
  The end-to-end scenario of the specification: application key \<open>demo\<close>, secret
  \<open>s3cr3t\<close>, a window of 300 seconds, and a request with \<open>foo=1\<close> and \<open>bar\<close>, whose
  \<open>sign\<close> was computed for \<open>bar=2\<close> at the time 1700000000.
\<close>

definition demo_config :: SignatureConfig where
  "demo_config = \<lparr>cfg_AppKey = ''demo'', cfg_AppSecret = ''s3cr3t'', cfg_Expire = 300\<rparr>"

definition demo_params :: "string \<Rightarrow> gomap" where
  "demo_params bar =
     [(''foo'', ''1''), (''bar'', bar), (''app_key'', ''demo''),
      (''timestamp'', ''1700000000''), (''nonce'', ''abc'')]"

definition demo_request :: "string \<Rightarrow> Request" where
  "demo_request bar =
     \<lparr>Method = ''GET'', Header = [],
      Query = [(''app_key'', [''demo'']), (''timestamp'', [''1700000000'']),
               (''nonce'', [''abc'']), (''foo'', [''1'']), (''bar'', [bar]),
               (''sign'', [''3f18b10afe4105e0ea8fb149c8181833''])],
      PostForm = []\<rparr>"

text \<open>A correctly signed request whose timestamp is the least \<open>int64\<close>.\<close>

definition ancient_request :: Request where
  "ancient_request =
     \<lparr>Method = ''GET'', Header = [],
      Query = [(''app_key'', [''demo'']), (''timestamp'', [''-9223372036854775808'']),
               (''nonce'', [''abc'']), (''sign'', [''13aa3367a54022b7e7f6b494838915b4''])],
      PostForm = []\<rparr>"

definition empty_Context :: Context where
  "empty_Context = \<lparr>ctx_signatureParams = None, ctx_userID = None\<rparr>"

text \<open>
  A process in which \<open>main\<close> has initialised the Structured Logger with the default
  configuration and the directory \<open>logs/requests\<close> cannot be created. Request log
  entries are strings here, and \<open>unserialisable\<close> is the one that \<open>json.Marshal\<close>
  refuses.
\<close>

definition demo_env :: "string Env" where
  "demo_env =
     \<lparr>mkdir_fails = (\<lambda>p. p = ''logs/requests''), today = ''2026-01-01'',
      json_Marshal = (\<lambda>r. if r = ''unserialisable'' then None else Some r),
      write_fails = (\<lambda>w. False)\<rparr>"

definition started_state :: State where
  "started_state =
     \<lparr>logger = Some (build_cores defaultLogConfig ''2026-01-01''), once = True,
      requestLogger = None, reqLogOnce = False, records = [], audit_writes = [],
      rotation_started = False\<rparr>"

section \<open>Properties of the canonical signer\<close>

lemma write_params_concat:
  "write_params params keys b = b @ concat (map (\<lambda>k. k @ ''='' @ index_map params k @ ''&'') keys)"
  by (induction keys arbitrary: b) simp_all

lemma sort_range_keys:
  assumes "distinct (map fst m)"
  shows "sort (range_keys m) = sorted_list_of_set (dom (map_of m))"
proof -
  have "sorted_list_of_set (set (map fst m)) = sort (remdups (map fst m))"
    by (rule sorted_list_of_set_sort_remdups)
  also have "remdups (map fst m) = map fst m"
    using assms by (rule distinct_remdups_id)
  finally show ?thesis
    by (simp add: range_keys_def dom_map_of_conv_image_fst)
qed

lemma index_map_the:
  "k \<in> dom (map_of m) \<Longrightarrow> index_map m k = the (map_of m k)"
  by (auto simp: index_map_def)

lemma hextable_digits: "list_all (\<lambda>n. hextable ! n = lower_hex_digit n) [0..<16]"
  by code_simp

lemma hextable_digit: "n < 16 \<Longrightarrow> hextable ! n = lower_hex_digit n"
  using hextable_digits by (simp add: list_all_iff)

lemma hex_byte:
  fixes v :: byte
  shows "hextable ! unat (drop_bit 4 v) = lower_hex_digit (unat v div 16)"
    and "hextable ! unat (v AND 0x0f) = lower_hex_digit (unat v mod 16)"
proof -
  have lt: "unat v < 256"
    using unsigned_less [of v] by simp
  have hi: "unat (drop_bit 4 v) = unat v div 16"
    by (simp add: drop_bit_eq_div unat_div)
  have "v AND 0x0f = take_bit 4 v"
    by (simp add: take_bit_eq_mask mask_eq_exp_minus_1)
  then have lo: "unat (v AND 0x0f) = unat v mod 16"
    by (simp add: take_bit_eq_mod unat_mod_distrib)
  show "hextable ! unat (drop_bit 4 v) = lower_hex_digit (unat v div 16)"
    using lt by (simp add: hi hextable_digit)
  show "hextable ! unat (v AND 0x0f) = lower_hex_digit (unat v mod 16)"
    by (simp add: lo hextable_digit)
qed

lemma hex_EncodeToString_lower_hex: "hex_EncodeToString bs = lower_hex bs"
  by (simp add: hex_EncodeToString_def lower_hex_def hex_byte)

lemma signed_string_spec:
  assumes "distinct (map fst m)"
  shows "write_params m (sort (range_keys m)) [] @ ''app_secret='' @ S
         = spec_signed_string (map_of m) S"
proof -
  let ?ks = "sorted_list_of_set (dom (map_of m))"
  have "write_params m (sort (range_keys m)) []
        = concat (map (\<lambda>k. k @ ''='' @ index_map m k @ ''&'') ?ks)"
    by (simp add: write_params_concat sort_range_keys [OF assms])
  also have "\<dots> = concat (map (\<lambda>k. k @ ''='' @ the (map_of m k) @ ''&'') ?ks)"
    by (intro arg_cong [where f = concat] map_cong refl)
       (simp add: index_map_the finite_dom_map_of)
  finally show ?thesis
    by (simp add: spec_signed_string_def)
qed

lemma GenerateSignature_signed_string:
  assumes "distinct (map fst m)"
  shows "GenerateSignature m S
         = hex_EncodeToString (md5_Sum (bytes_of (spec_signed_string (map_of m) S)))"
  using signed_string_spec [OF assms, of S] by (simp add: GenerateSignature_def)

lemma same_map_map_of: "same_map m m' \<Longrightarrow> map_of m = map_of m'"
  by (simp add: same_map_def map_of_inject_set)

text \<open>
  C1. For every parameter mapping \<open>P\<close> (a Go map, so with distinct keys, the \<open>sign\<close>
  field not among them) and every secret \<open>S\<close>, the signature computed by
  \<open>GenerateSignature\<close> is the lowercase hexadecimal encoding of the MD5 digest of the
  bytes of the string built by sorting the keys of \<open>P\<close> ascending by byte value,
  concatenating \<open>k=v&\<close> for each key in that order and appending \<open>app_secret=\<close>
  followed by \<open>S\<close>. For the empty mapping the signed string is exactly \<open>app_secret=\<close>
  followed by \<open>S\<close>.
\<close>

theorem GenerateSignature_is_spec_signature:
  "(distinct (map fst params) \<longrightarrow>
      GenerateSignature params S = spec_signature (map_of params) S)
   \<and> spec_signed_string Map.empty S = ''app_secret='' @ S
   \<and> GenerateSignature [] S = lower_hex (md5_Sum (bytes_of (''app_secret='' @ S)))"
proof (intro conjI impI)
  assume "distinct (map fst params)"
  then show "GenerateSignature params S = spec_signature (map_of params) S"
    by (simp add: GenerateSignature_signed_string spec_signature_def
        hex_EncodeToString_lower_hex)
next
  show "spec_signed_string Map.empty S = ''app_secret='' @ S"
    by (simp add: spec_signed_string_def)
next
  show "GenerateSignature [] S = lower_hex (md5_Sum (bytes_of (''app_secret='' @ S)))"
    by (simp add: GenerateSignature_def range_keys_def hex_EncodeToString_lower_hex)
qed

theorem GenerateSignature_is_spec_signature_witness:
  "distinct (map fst [(''foo'', ''1''), (''bar'', ''2'')])
   \<and> GenerateSignature [(''foo'', ''1''), (''bar'', ''2'')] ''s3cr3t''
       = ''aced630344313879122827e3b7946c0c''
   \<and> spec_signature (map_of [(''foo'', ''1''), (''bar'', ''2'')]) ''s3cr3t''
       = ''aced630344313879122827e3b7946c0c''"
proof -
  have d: "distinct (map fst [(''foo'', ''1''), (''bar'', ''2'')])"
    by simp
  have e: "GenerateSignature [(''foo'', ''1''), (''bar'', ''2'')] ''s3cr3t''
           = ''aced630344313879122827e3b7946c0c''"
    by code_simp
  from GenerateSignature_is_spec_signature [of "[(''foo'', ''1''), (''bar'', ''2'')]" "''s3cr3t''"] d e
  show ?thesis
    by metis
qed

text \<open>
  C7. Two parameter mappings that contain the same key-value pairs, entered or visited in
  different orders, have the same signature under every secret.
\<close>

theorem GenerateSignature_order_independent:
  "same_map params params' \<Longrightarrow> GenerateSignature params S = GenerateSignature params' S"
proof -
  assume sm: "same_map params params'"
  then have d: "distinct (map fst params)" and d': "distinct (map fst params')"
    by (simp_all add: same_map_def)
  from sm have "map_of params = map_of params'"
    by (rule same_map_map_of)
  then show ?thesis
    by (simp add: GenerateSignature_signed_string [OF d] GenerateSignature_signed_string [OF d'])
qed

theorem GenerateSignature_order_independent_witness:
  "same_map [(''foo'', ''1''), (''bar'', ''2'')] [(''bar'', ''2''), (''foo'', ''1'')]
   \<and> GenerateSignature [(''foo'', ''1''), (''bar'', ''2'')] ''s3cr3t''
       = GenerateSignature [(''bar'', ''2''), (''foo'', ''1'')] ''s3cr3t''"
proof -
  have sm: "same_map [(''foo'', ''1''), (''bar'', ''2'')] [(''bar'', ''2''), (''foo'', ''1'')]"
    by (auto simp: same_map_def)
  from sm GenerateSignature_order_independent [OF sm, of "''s3cr3t''"]
  show ?thesis
    by simp
qed

section \<open>Properties of the signature middleware\<close>




text \<open>
  C2. A request that was signed correctly and then had one parameter value changed, with
  \<open>sign\<close> left as it was, is to be rejected with a bad-signature error before the
  business handler runs. In the scenario of the specification the signature
  \<open>3f18b10afe4105e0ea8fb149c8181833\<close> is the right one for \<open>bar=2\<close>; with \<open>bar=3\<close> the
  statements that verify it would answer \<open>Abort 400 400 SignatureMismatch\<close>, but
  \<open>Signature\<close> as written calls \<open>c.Next()\<close> first and returns: the handler runs.
\<close>

theorem Signature_passes_tampered_request:
  "GenerateSignature (demo_params ''2'') ''s3cr3t'' = ''3f18b10afe4105e0ea8fb149c8181833''
   \<and> Signature_checks demo_config 1700000000 (demo_request ''3'') empty_Context
       = Abort 400 400 SignatureMismatch
   \<and> Signature demo_config (demo_request ''3'') empty_Context = Next empty_Context"
proof (intro conjI)
  show "GenerateSignature (demo_params ''2'') ''s3cr3t'' = ''3f18b10afe4105e0ea8fb149c8181833''"
    by code_simp
  show "Signature_checks demo_config 1700000000 (demo_request ''3'') empty_Context
       = Abort 400 400 SignatureMismatch"
    by code_simp
  show "Signature demo_config (demo_request ''3'') empty_Context = Next empty_Context"
    by (simp add: Signature_def)
qed

text \<open>
  The comparison \<open>now - params.Timestamp > expire\<close> is the comparison of the true
  difference exactly when the difference fits \<open>int64\<close>.
\<close>

lemma freshness_check_exact:
  fixes now t w :: int64
  assumes "- (2 ^ 63) \<le> sint now - sint t" and "sint now - sint t < 2 ^ 63"
  shows "(sint (now - t) > sint w) = (sint now - sint t > sint w)"
proof -
  have "sint (now - t) = signed_take_bit 63 (sint now - sint t)"
    by (simp add: sint_word_ariths)
  also have "\<dots> = sint now - sint t"
    using assms by (simp add: signed_take_bit_int_eq_self)
  finally show ?thesis by simp
qed

text \<open>
  C5. The freshness check is to accept exactly when \<open>now - t \<le> w\<close>, rejecting with an
  expiry error when \<open>now - t > w\<close>. Two inputs where the code does otherwise: the request
  of the scenario, presented 1000 seconds after its timestamp with a window of 300
  seconds, goes through \<open>Signature\<close> to the handler, because the check, which would
  reject it, is never reached; and a correctly signed request whose timestamp is the
  least \<open>int64\<close> passes the check itself, because the subtraction wraps around to a
  negative number.
\<close>

theorem freshness_check_accepts_stale_timestamps:
  "Signature demo_config (demo_request ''2'') empty_Context = Next empty_Context
   \<and> Signature_checks demo_config 1700001000 (demo_request ''2'') empty_Context
       = Abort 400 400 SignatureExpired
   \<and> map_option Timestamp (ShouldBindQuery (demo_request ''2'')) = Some 1700000000
   \<and> sint (1700001000 :: int64) - sint (1700000000 :: int64) > sint (cfg_Expire demo_config)
   \<and> Signature_checks demo_config 1700001000 ancient_request empty_Context
       = Next (empty_Context\<lparr>ctx_signatureParams := ShouldBindQuery ancient_request\<rparr>)
   \<and> map_option Timestamp (ShouldBindQuery ancient_request) = Some (- 9223372036854775808)
   \<and> sint (1700001000 :: int64) - sint (- 9223372036854775808 :: int64) > sint (cfg_Expire demo_config)"
proof (intro conjI)
  show "Signature demo_config (demo_request ''2'') empty_Context = Next empty_Context"
    by (simp add: Signature_def)
  show "Signature_checks demo_config 1700001000 (demo_request ''2'') empty_Context
       = Abort 400 400 SignatureExpired"
    by code_simp
  show "map_option Timestamp (ShouldBindQuery (demo_request ''2'')) = Some 1700000000"
    by code_simp
  show "sint (1700001000 :: int64) - sint (1700000000 :: int64) > sint (cfg_Expire demo_config)"
    by (simp add: demo_config_def)
  show "Signature_checks demo_config 1700001000 ancient_request empty_Context
       = Next (empty_Context\<lparr>ctx_signatureParams := ShouldBindQuery ancient_request\<rparr>)"
    by code_simp
  show "map_option Timestamp (ShouldBindQuery ancient_request) = Some (- 9223372036854775808)"
    by code_simp
  show "sint (1700001000 :: int64) - sint (- 9223372036854775808 :: int64) > sint (cfg_Expire demo_config)"
    by (simp add: demo_config_def)
qed

section \<open>Properties of the session tokens\<close>

text \<open>
  C3. A request on an authenticated route whose \<open>Authorization\<close> header is malformed
  (missing, without the \<open>Bearer\<close> prefix, or not two parts) is to be rejected with a
  401 response, the handler not being invoked. \<open>JWTAuth\<close> as written does not read the
  header: for every request it stores the user 1 and calls \<open>c.Next()\<close>.
\<close>

theorem JWTAuth_passes_malformed_header:
  "malformed_Authorization (index_map [] ''Authorization'')
   \<and> malformed_Authorization ''Token abc''
   \<and> malformed_Authorization ''Bearer''
   \<and> \<not> malformed_Authorization ''Bearer abc''
   \<and> JWTAuth secret req c = Next (c\<lparr>ctx_userID := Some 1\<rparr>)"
  by (simp add: malformed_Authorization_def SplitN2_def index_map_def JWTAuth_def)

lemma NewNumericDate_gt: "t - 1000000000 < NewNumericDate t"
proof -
  have "t mod 1000000000 < 1000000000"
    by simp
  then show ?thesis
    by (simp add: NewNumericDate_def)
qed

text \<open>
  C6 as amended. For every subject \<open>userID\<close>, secret and time to live of at least one
  second, a token issued at \<open>now0\<close> and verified with the same secret at \<open>now2\<close>, not
  before the issue and at most the time to live less one second after it (in particular
  at once, \<open>now2 = now0\<close>), is accepted and gives back \<open>userID\<close>.
\<close>

theorem issue_then_verify:
  assumes ttl: "1000000000 \<le> sint expire"
    and after: "now0 \<le> now2"
    and within: "now2 - now0 \<le> sint expire - 1000000000"
  shows "\<exists>tokenString claims.
           GenerateToken userID secret expire now0 now1 = Inr tokenString
           \<and> ParseToken tokenString secret now2 = Inr claims
           \<and> UserID claims = userID"
proof -
  let ?exp = "NewNumericDate (Time_Add now0 expire)"
  have "now0 + sint expire - 1000000000 < ?exp"
    using NewNumericDate_gt [of "Time_Add now0 expire"] by (simp add: Time_Add_def)
  with within have fresh: "now2 < ?exp"
    by linarith
  show ?thesis
    using fresh
    by (simp add: GenerateToken_def SignedString_def ParseToken_def ParseWithClaims_def
        Validate_def Let_def)
qed

theorem issue_then_verify_witness:
  "1000000000 \<le> sint (86400000000000 :: int64)
   \<and> (1700000000123456789 :: int) \<le> 1700000000123456789
   \<and> (1700000000123456789 :: int) - 1700000000123456789 \<le> sint (86400000000000 :: int64) - 1000000000
   \<and> (\<exists>tokenString claims.
           GenerateToken 42 ''secret'' 86400000000000 1700000000123456789 1700000000123456999 = Inr tokenString
           \<and> ParseToken tokenString ''secret'' 1700000000123456789 = Inr claims
           \<and> UserID claims = 42)"
proof -
  have a: "1000000000 \<le> sint (86400000000000 :: int64)" by simp
  have b: "(1700000000123456789 :: int) \<le> 1700000000123456789" by simp
  have c: "(1700000000123456789 :: int) - 1700000000123456789 \<le> sint (86400000000000 :: int64) - 1000000000"
    by simp
  from issue_then_verify [OF a b c, of 42 "''secret''" 1700000000123456999] a b c show ?thesis
    by blast
qed

text \<open>
  C6 as stated fails for a positive time to live below one second: \<open>ExpiresAt\<close> is
  rounded down to a whole second, so a token issued on a second boundary with half a
  second to live expires at the instant of its issue, and the validator wants the
  current time strictly before the expiry.
\<close>

theorem issue_then_verify_counterexample:
  "0 < sint (500000000 :: int64)
   \<and> (case GenerateToken 42 ''secret'' 500000000 1700000000000000000 1700000000000000000 of
         Inl err \<Rightarrow> Inl err
       | Inr tokenString \<Rightarrow> ParseToken tokenString ''secret'' 1700000000000000000)
     = Inl TokenExpired"
  by (simp add: GenerateToken_def SignedString_def ParseToken_def ParseWithClaims_def
        Validate_def Let_def NewNumericDate_def Time_Add_def)

section \<open>Properties of the structured logger\<close>






section \<open>Properties of the audit recorder\<close>

lemma zap_log_Returned:
  "logger s = Some cores \<Longrightarrow>
   zap_log lvl msg s
   = Returned (s\<lparr>records := records s @ map (\<lambda>ws. (ws, lvl, msg)) (tee_write cores lvl)\<rparr>)"
  by (simp add: zap_log_def)

lemma GetLogger_available:
  assumes "logger_available env s"
  shows "\<exists>s' cores. GetLogger env s = Returned s' \<and> logger s' = Some cores
           \<and> audit_writes s' = audit_writes s \<and> requestLogger s' = requestLogger s
           \<and> reqLogOnce s' = reqLogOnce s"
proof (cases "logger s")
  case None
  with assms have "\<not> once s" and "\<not> mkdir_fails env (LogDir defaultLogConfig)"
    by (simp_all add: logger_available_def)
  with None show ?thesis
    by (simp add: GetLogger_def InitLogger_def InitLoggerWithConfig_def zap_log_def Let_def)
next
  case (Some cores)
  then show ?thesis
    by (simp add: GetLogger_def)
qed

lemma log_available:
  assumes "logger_available env s"
  shows "\<exists>s' cores pre. 
           (case GetLogger env s of Returned s0 \<Rightarrow> zap_log lvl msg s0 | e \<Rightarrow> e) = Returned s'
           \<and> logger s' = Some cores
           \<and> records s' = pre @ map (\<lambda>ws. (ws, lvl, msg)) (tee_write cores lvl)
           \<and> audit_writes s' = audit_writes s \<and> requestLogger s' = requestLogger s
           \<and> reqLogOnce s' = reqLogOnce s"
proof -
  from GetLogger_available [OF assms] obtain s0 cores where
    g: "GetLogger env s = Returned s0" and l: "logger s0 = Some cores"
    and k: "audit_writes s0 = audit_writes s" "requestLogger s0 = requestLogger s"
       "reqLogOnce s0 = reqLogOnce s"
    by blast
  show ?thesis
    using g l k by (simp add: zap_log_Returned [OF l])
qed

lemma Error_available:
  assumes "logger_available env s"
  shows "\<exists>s' cores pre. Error env msg s = Returned s'
           \<and> logger s' = Some cores
           \<and> records s' = pre @ map (\<lambda>ws. (ws, ErrorLevel, msg)) (tee_write cores ErrorLevel)
           \<and> audit_writes s' = audit_writes s \<and> requestLogger s' = requestLogger s
           \<and> reqLogOnce s' = reqLogOnce s"
  unfolding Error_def by (rule log_available [OF assms])




lemma final_state_simps:
  "final_state (Returned s) = s"
  "final_state (Panicked p s) = s"
  "final_state (Deadlocked s) = s"
  by (simp_all add: final_state_def)

lemma zap_log_frame:
  "audit_writes (final_state (zap_log lvl msg s)) = audit_writes s
   \<and> requestLogger (final_state (zap_log lvl msg s)) = requestLogger s
   \<and> reqLogOnce (final_state (zap_log lvl msg s)) = reqLogOnce s"
  by (simp add: zap_log_def final_state_simps split: option.splits)

lemma GetLogger_frame:
  "audit_writes (final_state (GetLogger env s)) = audit_writes s
   \<and> requestLogger (final_state (GetLogger env s)) = requestLogger s
   \<and> reqLogOnce (final_state (GetLogger env s)) = reqLogOnce s"
  by (simp add: GetLogger_def InitLogger_def InitLoggerWithConfig_def zap_log_def
      final_state_simps Let_def split: option.splits)

lemma log_frame:
  "audit_writes (final_state (case GetLogger env s of Returned s0 \<Rightarrow> zap_log lvl msg s0 | e \<Rightarrow> e))
     = audit_writes s
   \<and> requestLogger (final_state (case GetLogger env s of Returned s0 \<Rightarrow> zap_log lvl msg s0 | e \<Rightarrow> e))
     = requestLogger s
   \<and> reqLogOnce (final_state (case GetLogger env s of Returned s0 \<Rightarrow> zap_log lvl msg s0 | e \<Rightarrow> e))
     = reqLogOnce s"
proof (cases "GetLogger env s")
  case (Returned s0)
  with GetLogger_frame [of env s] zap_log_frame [of lvl msg s0] show ?thesis
    by (simp add: final_state_simps)
next
  case (Panicked p s0)
  with GetLogger_frame [of env s] show ?thesis
    by (simp add: final_state_simps)
next
  case (Deadlocked s0)
  with GetLogger_frame [of env s] show ?thesis
    by (simp add: final_state_simps)
qed

lemma Error_frame:
  "audit_writes (final_state (Error env msg s)) = audit_writes s
   \<and> requestLogger (final_state (Error env msg s)) = requestLogger s
   \<and> reqLogOnce (final_state (Error env msg s)) = reqLogOnce s"
  unfolding Error_def by (rule log_frame)





text \<open>
  C10 as amended. If the first initialisation of the audit recorder cannot create the log
  directory, the initialiser leaves the recorder nil with the once-only guard consumed
  (and it returns, when the Structured Logger can log the failure). Every later call of
  \<open>LogRequest\<close> on an entry that serialises runs the initialiser again to no effect and
  then dereferences the nil recorder when it locks the mutex: the call panics.
\<close>

theorem LogRequest_panics_after_failed_init:
  "(requestLogger s = None \<and> \<not> reqLogOnce s \<and> mkdir_fails env (requestLogDir config) \<longrightarrow>
      requestLogger (final_state (InitRequestLogger env config s)) = None
      \<and> reqLogOnce (final_state (InitRequestLogger env config s))
      \<and> (logger_available env s \<longrightarrow> returned (InitRequestLogger env config s)))
   \<and> (requestLogger s = None \<and> reqLogOnce s \<and> json_Marshal env reqLog = Some jsonData \<longrightarrow>
      LogRequest env reqLog s = Panicked NilPointerDereference s)"
proof (intro conjI impI)
  assume h: "requestLogger s = None \<and> \<not> reqLogOnce s \<and> mkdir_fails env (requestLogDir config)"
  let ?s1 = "s\<lparr>reqLogOnce := True\<rparr>"
  from h have i: "InitRequestLogger env config s = Error env RequestLogDirFailed ?s1"
    by (simp add: InitRequestLogger_def Let_def)
  from h i Error_frame [of env RequestLogDirFailed ?s1]
  show "requestLogger (final_state (InitRequestLogger env config s)) = None"
    and "reqLogOnce (final_state (InitRequestLogger env config s))"
    by simp_all
  assume "logger_available env s"
  then have "logger_available env ?s1"
    by (simp add: logger_available_def)
  from Error_available [OF this, of RequestLogDirFailed] i
  show "returned (InitRequestLogger env config s)"
    by (auto simp: returned_def)
next
  assume "requestLogger s = None \<and> reqLogOnce s \<and> json_Marshal env reqLog = Some jsonData"
  then show "LogRequest env reqLog s = Panicked NilPointerDereference s"
    by (simp add: LogRequest_def InitRequestLogger_def)
qed

theorem LogRequest_panics_after_failed_init_witness:
  "requestLogger started_state = None \<and> \<not> reqLogOnce started_state
   \<and> mkdir_fails demo_env (requestLogDir defaultLogConfig)
   \<and> logger_available demo_env started_state
   \<and> requestLogger (final_state (InitRequestLogger demo_env defaultLogConfig started_state)) = None
   \<and> reqLogOnce (final_state (InitRequestLogger demo_env defaultLogConfig started_state))
   \<and> returned (InitRequestLogger demo_env defaultLogConfig started_state)
   \<and> json_Marshal demo_env ''entry'' = Some ''entry''
   \<and> LogRequest demo_env ''entry''
        (final_state (InitRequestLogger demo_env defaultLogConfig started_state))
       = Panicked NilPointerDereference
          (final_state (InitRequestLogger demo_env defaultLogConfig started_state))"
proof -
  let ?s1 = "final_state (InitRequestLogger demo_env defaultLogConfig started_state)"
  have a: "requestLogger started_state = None \<and> \<not> reqLogOnce started_state
     \<and> mkdir_fails demo_env (requestLogDir defaultLogConfig)"
    by (simp add: started_state_def demo_env_def requestLogDir_def defaultLogConfig_def
        filepath_Join_def)
  have l: "logger_available demo_env started_state"
    by (simp add: logger_available_def started_state_def)
  have m: "json_Marshal demo_env ''entry'' = Some ''entry''"
    by (simp add: demo_env_def)
  from LogRequest_panics_after_failed_init [of started_state demo_env defaultLogConfig "''entry''" "''entry''"] a l
  have 1: "requestLogger ?s1 = None \<and> reqLogOnce ?s1
           \<and> returned (InitRequestLogger demo_env defaultLogConfig started_state)"
    by blast
  from LogRequest_panics_after_failed_init [of ?s1 demo_env defaultLogConfig "''entry''" "''entry''"] 1 m
  have 2: "LogRequest demo_env ''entry'' ?s1 = Panicked NilPointerDereference ?s1"
    by blast
  from a l m 1 2 show ?thesis
    by blast
qed

text \<open>
  C10 as stated says that every later call panics. A call on an entry that does not
  serialise returns before the recorder is touched: after the failed initialisation the
  call logs the failure and returns.
\<close>

theorem LogRequest_panics_after_failed_init_counterexample:
  "returned (InitRequestLogger demo_env defaultLogConfig started_state)
   \<and> requestLogger (final_state (InitRequestLogger demo_env defaultLogConfig started_state)) = None
   \<and> reqLogOnce (final_state (InitRequestLogger demo_env defaultLogConfig started_state))
   \<and> returned (LogRequest demo_env ''unserialisable''
        (final_state (InitRequestLogger demo_env defaultLogConfig started_state)))
   \<and> \<not> panicked (LogRequest demo_env ''unserialisable''
        (final_state (InitRequestLogger demo_env defaultLogConfig started_state)))"
  by (simp add: returned_def panicked_def final_state_def InitRequestLogger_def LogRequest_def
      Error_def GetLogger_def zap_log_def started_state_def demo_env_def requestLogDir_def
      defaultLogConfig_def filepath_Join_def Let_def)

end
